theory Spec2Isabelle
  imports Complex_Main
begin

section \<open>Common data\<close>

text \<open>
  Eigen::Vector3d and Eigen::Vector3f are triples of numbers. The source computes on
  IEEE floats and doubles; the embedding computes on the reals, so rounding is not part
  of it. Clock readings (ros::Time::now) and the answers of collaborators whose code is
  not in the repository's files (the A* search, the corridor generator, the optimizer,
  the deconfliction module) are inputs of the functions below.
\<close>

type_synonym vec3 = "real \<times> real \<times> real"

type_synonym vec3i = "int \<times> int \<times> int"

definition vadd :: "vec3 \<Rightarrow> vec3 \<Rightarrow> vec3" where
  "vadd a b = (case a of (ax, ay, az) \<Rightarrow> case b of (bx, by, bz) \<Rightarrow> (ax + bx, ay + by, az + bz))"

definition vsub :: "vec3 \<Rightarrow> vec3 \<Rightarrow> vec3" where
  "vsub a b = (case a of (ax, ay, az) \<Rightarrow> case b of (bx, by, bz) \<Rightarrow> (ax - bx, ay - by, az - bz))"

definition viadd :: "vec3i \<Rightarrow> vec3i \<Rightarrow> vec3i" where
  "viadd a b = (case a of (ax, ay, az) \<Rightarrow> case b of (bx, by, bz) \<Rightarrow> (ax + bx, ay + by, az + bz))"

definition zero3 :: vec3 where
  "zero3 = (0, 0, 0)"

text \<open>
  The outcome of a call into a collaborator: it returns a value, or it throws an
  exception. The handlers of the source are \<^verbatim>\<open>catch (int e)\<close>, so an exception is told
  apart by whether its type is int.
\<close>

datatype exn = IntExn int | OtherExn string

datatype 'a outcome = Returns 'a | Throws exn

section \<open>Planner (multi\_planning.cpp)\<close>

record PlannerConfig =
  max_differentiated_current_a :: real
  goal_x :: real
  goal_y :: real
  goal_z :: real
  a_star_search_time_step :: real
  v_max_xy :: real
  v_max_z :: real
  is_rviz_map_center_locked :: bool

record 'traj Planner =
  odom_pos :: vec3
  odom_vel :: vec3
  odom_acc :: vec3
  prev_t :: real
  prev_vx :: real
  prev_vy :: real
  prev_vz :: real
  map_center :: vec3
  ref_direction_angle :: real
  is_future_risk_updated :: bool
  traj :: 'traj

subsection \<open>Planner::VelCallback\<close>

definition dead_zone :: "real \<Rightarrow> real" where
  "dead_zone a = (if \<bar>a\<bar> < 0.2 then 0 else a)"

definition clip_acc :: "real \<Rightarrow> real \<Rightarrow> real" where
  "clip_acc m a = (if a < - m then - m else if a > m then m else a)"

text \<open>
  \<open>VelCallback conf t_diff t_store v s\<close>: the callback on a velocity message with
  linear part \<open>v\<close>. \<open>t_diff\<close> is the clock reading of line 137 and \<open>t_store\<close> the one
  of line 156. \<open>is_vel_initialized\<close> is a local variable of the callback, set to true
  at every call, as in the source.
\<close>

definition VelCallback ::
  "PlannerConfig \<Rightarrow> real \<Rightarrow> real \<Rightarrow> vec3 \<Rightarrow> 'traj Planner \<Rightarrow> 'traj Planner" where
  "VelCallback conf t_diff t_store v s =
    (let s1 = s\<lparr>odom_vel := v\<rparr>;
         is_vel_initialized = True;
         s2 = (if is_vel_initialized then s1
               else
                 (let dt = t_diff - prev_t s1;
                      m = max_differentiated_current_a conf;
                      ax = (fst (odom_vel s1) - prev_vx s1) / dt;
                      ay = (fst (snd (odom_vel s1)) - prev_vy s1) / dt;
                      az = (snd (snd (odom_vel s1)) - prev_vz s1) / dt
                  in s1\<lparr>odom_acc :=
                        (clip_acc m (dead_zone ax), clip_acc m (dead_zone ay),
                         clip_acc m (dead_zone az))\<rparr>))
     in s2\<lparr>prev_t := t_store,
            prev_vx := fst (odom_vel s2),
            prev_vy := fst (snd (odom_vel s2)),
            prev_vz := snd (snd (odom_vel s2))\<rparr>)"

text \<open>
  What the specification asks of the differentiator, in its words: on a sample \<open>v\<close> at
  time \<open>t\<close> after the first, with the stored pair \<open>(prev_v, prev_t)\<close>, each component
  of the acceleration is the first difference, zeroed inside the dead zone, then clipped.
\<close>

definition spec_differentiate :: "real \<Rightarrow> vec3 \<Rightarrow> real \<Rightarrow> vec3 \<Rightarrow> real \<Rightarrow> vec3" where
  "spec_differentiate m v t prev_v prev_time =
    (case v of (x, y, z) \<Rightarrow> case prev_v of (px, py, pz) \<Rightarrow>
       (clip_acc m (dead_zone ((x - px) / (t - prev_time))),
        clip_acc m (dead_zone ((y - py) / (t - prev_time))),
        clip_acc m (dead_zone ((z - pz) / (t - prev_time)))))"

definition conf0 :: PlannerConfig where
  "conf0 = \<lparr>max_differentiated_current_a = 4, goal_x = 5, goal_y = 0, goal_z = 1,
            a_star_search_time_step = 0.4, v_max_xy = 3, v_max_z = 2,
            is_rviz_map_center_locked = False\<rparr>"

text \<open>The planner after its constructor, with an acceleration left over from before.\<close>

definition planner0 :: "nat Planner" where
  "planner0 = \<lparr>odom_pos = (0, 0, 1), odom_vel = (0, 0, 0), odom_acc = (9, 9, 9),
               prev_t = 0, prev_vx = 0, prev_vy = 0, prev_vz = 0,
               map_center = (0, 0, 1), ref_direction_angle = 100,
               is_future_risk_updated = False, traj = 0\<rparr>"

subsection \<open>Planner::OptimizationInCorridors\<close>

text \<open>
  The optimizer (traj\_opt::CorridorMiniSnap) is not among the repository's files. Each
  of its calls may return or throw. Its behaviour on the corridors of a cycle is given
  by: the outcome of \<^verbatim>\<open>reset\<close>; the outcome of \<^verbatim>\<open>optimize\<close>; the outcome of the call
  of \<^verbatim>\<open>reOptimize\<close> that follows \<open>k\<close> earlier ones; the outcome of \<^verbatim>\<open>getTrajectory\<close>
  after \<open>k\<close> calls of \<^verbatim>\<open>reOptimize\<close>; and the outcome of \<^verbatim>\<open>isCorridorSatisfied\<close> on a
  trajectory.
\<close>

record 'traj optimizer =
  reset :: "unit outcome"
  optimize :: "bool outcome"
  reOptimize :: "nat \<Rightarrow> bool outcome"
  getTrajectory :: "nat \<Rightarrow> 'traj outcome"
  isCorridorSatisfied :: "'traj \<Rightarrow> bool outcome"

text \<open>
  How a call of a C++ function with a result ends: a return statement gives a value;
  control flows off the end of the body without a return statement (no value is
  defined); or an exception leaves the function.
\<close>

datatype 'a cpp_result = Returned 'a | FlowsOffEnd | Propagates exn

text \<open>
  The loop of lines 230 to 247, \<^verbatim>\<open>while (!isCorridorSatisfied(_traj, ...) && i++ < I)\<close>.
  \<open>i\<close> is the counter before the test, \<open>tr\<close> is \<^verbatim>\<open>_traj\<close>. The result holds how the
  function ends, the last \<^verbatim>\<open>_traj\<close>, and the number of calls of \<^verbatim>\<open>reOptimize\<close> made.
  Only the call of \<^verbatim>\<open>reOptimize\<close> stands in a try block (lines 234 to 239), and its
  handler takes ints only; what \<^verbatim>\<open>isCorridorSatisfied\<close> or \<^verbatim>\<open>getTrajectory\<close> throw
  leaves the function. Nothing follows the loop in the source but a comment, so leaving
  the loop is flowing off the end of the function.
\<close>

function tighten_loop ::
  "'traj optimizer \<Rightarrow> nat \<Rightarrow> nat \<Rightarrow> 'traj \<Rightarrow> bool cpp_result \<times> 'traj \<times> nat" where
  "tighten_loop opt I i tr =
    (case isCorridorSatisfied opt tr of
       Throws x \<Rightarrow> (Propagates x, tr, i)
     | Returns satisfied \<Rightarrow>
         if \<not> satisfied \<and> i < I then
           (case reOptimize opt i of
              Throws (IntExn e) \<Rightarrow> (Returned False, tr, Suc i)
            | Throws (OtherExn e) \<Rightarrow> (Propagates (OtherExn e), tr, Suc i)
            | Returns is_solved \<Rightarrow>
                if is_solved then
                  (case getTrajectory opt (Suc i) of
                     Throws x \<Rightarrow> (Propagates x, tr, Suc i)
                   | Returns tr' \<Rightarrow> tighten_loop opt I (Suc i) tr')
                else (Returned False, tr, Suc i))
         else (FlowsOffEnd, tr, i))"
  by pat_completeness auto
termination
  by (relation "measure (\<lambda>(opt, I, i, tr). I - i)") auto

declare tighten_loop.simps [simp del]

text \<open>
  The routine from \<^verbatim>\<open>reset\<close> (line 212) on. \<^verbatim>\<open>reset\<close> and the first
  \<^verbatim>\<open>getTrajectory\<close> (line 227) stand outside the try block of lines 215 to 220.
\<close>

definition OptimizationInCorridors ::
  "'traj optimizer \<Rightarrow> 'traj Planner \<Rightarrow> bool cpp_result \<times> 'traj Planner \<times> nat" where
  "OptimizationInCorridors opt s =
    (case reset opt of
       Throws x \<Rightarrow> (Propagates x, s, 0)
     | Returns u \<Rightarrow>
         (case optimize opt of
            Throws (IntExn e) \<Rightarrow> (Returned False, s, 0)
          | Throws (OtherExn e) \<Rightarrow> (Propagates (OtherExn e), s, 0)
          | Returns is_solved \<Rightarrow>
              if \<not> is_solved then (Returned False, s, 0)
              else
                (case getTrajectory opt 0 of
                   Throws x \<Rightarrow> (Propagates x, s, 0)
                 | Returns tr0 \<Rightarrow>
                     (case tighten_loop opt 10 0 tr0 of
                        (r, tr, n) \<Rightarrow> (r, s\<lparr>traj := tr\<rparr>, n)))))"

subsection \<open>Planner::TrajTimerCallback\<close>

datatype Node = Node (node_t: real) (node_p: vec3) (node_v: vec3)

text \<open>The corridor message; the faces of its polyhedra are left out, their durations kept.\<close>

record corridor_msg =
  start_pos :: vec3
  start_vel :: vec3
  start_acc :: vec3
  end_pos :: vec3
  end_vel :: vec3
  end_acc :: vec3
  durations :: "real list"

text \<open>
  What a planning cycle emits, in order: calls of the visualizer (the marker id, or the
  number of corridors, and the trailing flag of the call; points and colours are left
  out), the call of the corridor generator, the corridor message published, and the call
  of the optimization routine. Logging is left out.
\<close>

datatype pl_event =
    VisualizeAstarPath int bool
  | VisualizeCorridors nat bool
  | FindCorridors
  | PublishCorridor corridor_msg
  | CallOptimizationInCorridors

text \<open>
  The collaborators of one cycle: the node list the A* search writes for a start and an
  end node, the number of corridors \<^verbatim>\<open>findCorridors\<close> builds, and the optimizer as it
  behaves after \<^verbatim>\<open>reset\<close> on a corridor message.
\<close>

record 'traj cycle =
  astar_search :: "Node \<Rightarrow> Node \<Rightarrow> Node list"
  findCorridors :: nat
  traj_optimizer :: "corridor_msg \<Rightarrow> 'traj optimizer"

datatype cycle_result = Skipped | AstarFailed | Optimized "bool cpp_result"

definition truncate_vel :: "real \<Rightarrow> real \<Rightarrow> real" where
  "truncate_vel vmax v = (if \<bar>v\<bar> > vmax then vmax * v / \<bar>v\<bar> else v)"

definition start_node :: "PlannerConfig \<Rightarrow> 'traj Planner \<Rightarrow> Node" where
  "start_node conf s =
    (case odom_vel s of (vx, vy, vz) \<Rightarrow>
       Node 0 (vsub (odom_pos s) (map_center s))
         (truncate_vel (v_max_xy conf) vx, truncate_vel (v_max_xy conf) vy,
          truncate_vel (v_max_z conf) vz))"

definition end_node :: "PlannerConfig \<Rightarrow> 'traj Planner \<Rightarrow> Node" where
  "end_node conf s =
    Node 0 (vsub (goal_x conf, goal_y conf, goal_z conf) (map_center s)) zero3"

text \<open>The C library's \<^verbatim>\<open>atan2\<close> on the reals (signed zeros are not told apart).\<close>

definition atan2 :: "real \<Rightarrow> real \<Rightarrow> real" where
  "atan2 y x =
    (if 0 < x then arctan (y / x)
     else if x < 0 then (if 0 \<le> y then arctan (y / x) + pi else arctan (y / x) - pi)
     else if 0 < y then pi / 2
     else if y < 0 then - (pi / 2)
     else 0)"

text \<open>The node positions as drawn (lines 450 to 463), and the reference angle of line 467.\<close>

definition path_points :: "PlannerConfig \<Rightarrow> 'traj Planner \<Rightarrow> Node list \<Rightarrow> vec3 list" where
  "path_points conf s astar_rst =
    map (\<lambda>p. if is_rviz_map_center_locked conf then node_p p
             else vadd (node_p p) (map_center s)) astar_rst"

definition new_ref_direction_angle ::
  "PlannerConfig \<Rightarrow> 'traj Planner \<Rightarrow> Node list \<Rightarrow> real" where
  "new_ref_direction_angle conf s astar_rst =
    (let points = path_points conf s astar_rst
     in atan2 (fst (snd (points ! 1)) - fst (snd (points ! 0)))
              (fst (points ! 1) - fst (points ! 0)))"

definition make_corridor_msg ::
  "PlannerConfig \<Rightarrow> 'traj Planner \<Rightarrow> Node list \<Rightarrow> nat \<Rightarrow> corridor_msg" where
  "make_corridor_msg conf s astar_rst n =
    \<lparr>start_pos = node_p (astar_rst ! 0), start_vel = node_v (astar_rst ! 0),
     start_acc = odom_acc s,
     end_pos = node_p (astar_rst ! (length astar_rst - 1)),
     end_vel = node_v (astar_rst ! (length astar_rst - 1)),
     end_acc = zero3,
     durations = replicate n (a_star_search_time_step conf)\<rparr>"

text \<open>
  One call of the timer callback. \<open>make_corridor_msg\<close> and \<open>new_ref_direction_angle\<close>
  are used only where the node list has at least two nodes, so their reads of the first
  two and of the last node are within the list. The static \<^verbatim>\<open>last_end_time\<close> is read
  and written for logging only and is left out.
\<close>

definition TrajTimerCallback ::
  "PlannerConfig \<Rightarrow> 'traj cycle \<Rightarrow> 'traj Planner \<Rightarrow>
     cycle_result \<times> 'traj Planner \<times> pl_event list" where
  "TrajTimerCallback conf cyc s =
    (if \<not> is_future_risk_updated s then (Skipped, s, [])
     else
       (let astar_rst = astar_search cyc (start_node conf s) (end_node conf s)
        in if length astar_rst \<le> 1 \<or> length astar_rst \<ge> 10 then
             (AstarFailed, s,
              [VisualizeAstarPath 0 True, VisualizeAstarPath 1 True, VisualizeCorridors 0 True])
           else
             (let s1 = s\<lparr>ref_direction_angle := new_ref_direction_angle conf s astar_rst\<rparr>;
                  n = findCorridors cyc;
                  msg = make_corridor_msg conf s1 astar_rst n
              in case OptimizationInCorridors (traj_optimizer cyc msg) s1 of
                   (r, s', k) \<Rightarrow>
                     (Optimized r, s',
                      [VisualizeAstarPath 0 False, VisualizeAstarPath 1 False, FindCorridors,
                       PublishCorridor msg,
                       VisualizeCorridors n (is_rviz_map_center_locked conf),
                       CallOptimizationInCorridors]))))"

text \<open>Sample collaborators.\<close>

definition opt_never_satisfied :: "nat optimizer" where
  "opt_never_satisfied =
    \<lparr>reset = Returns (), optimize = Returns True, reOptimize = (\<lambda>k. Returns True),
     getTrajectory = (\<lambda>k. Returns (Suc k)), isCorridorSatisfied = (\<lambda>tr. Returns False)\<rparr>"

definition opt_satisfied :: "nat optimizer" where
  "opt_satisfied =
    \<lparr>reset = Returns (), optimize = Returns True, reOptimize = (\<lambda>k. Returns True),
     getTrajectory = (\<lambda>k. Returns (Suc k)), isCorridorSatisfied = (\<lambda>tr. Returns True)\<rparr>"

definition opt_bad_alloc :: "nat optimizer" where
  "opt_bad_alloc = opt_satisfied\<lparr>optimize := Throws (OtherExn ''std::bad_alloc'')\<rparr>"

definition opt_throws_int :: "nat optimizer" where
  "opt_throws_int = opt_satisfied\<lparr>optimize := Throws (IntExn 1)\<rparr>"

definition opt_infeasible :: "nat optimizer" where
  "opt_infeasible = opt_satisfied\<lparr>optimize := Returns False\<rparr>"

definition opt_reopt_throws_int :: "nat optimizer" where
  "opt_reopt_throws_int =
    opt_never_satisfied\<lparr>reOptimize := (\<lambda>k. if k = 2 then Throws (IntExn 7) else Returns True)\<rparr>"

definition opt_reopt_bad_alloc :: "nat optimizer" where
  "opt_reopt_bad_alloc =
    opt_never_satisfied\<lparr>reOptimize :=
      (\<lambda>k. if k = 2 then Throws (OtherExn ''std::bad_alloc'') else Returns True)\<rparr>"

definition opt_reopt_infeasible :: "nat optimizer" where
  "opt_reopt_infeasible = opt_never_satisfied\<lparr>reOptimize := (\<lambda>k. Returns (k < 2))\<rparr>"

definition path_of :: "nat \<Rightarrow> Node list" where
  "path_of n = map (\<lambda>k. Node (real k) (real k, 0, 0) (1, 0, 0)) [0..<n]"

definition cycle_of :: "nat \<Rightarrow> nat optimizer \<Rightarrow> nat cycle" where
  "cycle_of n opt =
    \<lparr>astar_search = (\<lambda>a b. path_of n), findCorridors = 2,
     traj_optimizer = (\<lambda>msg. opt)\<rparr>"

definition planner1 :: "nat Planner" where
  "planner1 = planner0\<lparr>is_future_risk_updated := True\<rparr>"

section \<open>FakeParticleRiskVoxel (fake\_particle\_risk\_voxel.cpp)\<close>

text \<open>
  The class declaration and the macros of the map are not among the repository's files.
  What \<^verbatim>\<open>getClearOcccupancy\<close> uses of them is a field of the record: the number of
  time slices \<^verbatim>\<open>PREDICTION_TIMES\<close>, and the helpers on integer voxel coordinates
  \<^verbatim>\<open>getVoxelRelIndex\<close>, \<^verbatim>\<open>isInRange\<close> and \<^verbatim>\<open>getVoxelIndex\<close>. \<open>risk_maps m idx t\<close> is
  the content of \<^verbatim>\<open>risk_maps_[idx][t]\<close>.
\<close>

record FakeParticleRiskVoxel =
  pose :: vec3
  time_resolution :: real
  risk_threshold :: real
  inflate_kernel :: "vec3i list"
  risk_maps :: "int \<Rightarrow> int \<Rightarrow> real"
  PREDICTION_TIMES :: int
  getVoxelRelIndex :: "vec3 \<Rightarrow> vec3i"
  isInRange :: "vec3i \<Rightarrow> bool"
  getVoxelIndex :: "vec3i \<Rightarrow> int"

text \<open>
  The array is declared \<^verbatim>\<open>float risk_maps_[VOXEL_NUM][PREDICTION_TIMES]\<close>. A read at a
  slice index outside \<open>0 .. PREDICTION_TIMES - 1\<close> is a read outside the row; the model
  stops there with the index read. The voxel index is computed only for coordinates that
  \<^verbatim>\<open>isInRange\<close> accepts, and is taken to be within the array.
\<close>

datatype access_error = SliceOutOfBounds int

text \<open>The loop over \<^verbatim>\<open>inflate_kernel_\<close> of lines 273 to 281, with \<^verbatim>\<open>sum_risk\<close> so far.\<close>

fun inflate_loop ::
  "FakeParticleRiskVoxel \<Rightarrow> vec3i \<Rightarrow> int \<Rightarrow> real \<Rightarrow> vec3i list \<Rightarrow> access_error + int" where
  "inflate_loop m pos_i t sum_risk [] = Inr 0"
| "inflate_loop m pos_i t sum_risk (ego_i # rest) =
    (if \<not> isInRange m (viadd pos_i ego_i) then inflate_loop m pos_i t sum_risk rest
     else if t < 0 \<or> PREDICTION_TIMES m \<le> t then Inl (SliceOutOfBounds t)
     else if sum_risk + risk_maps m (getVoxelIndex m (viadd pos_i ego_i)) t > risk_threshold m
       then Inr 1
     else inflate_loop m pos_i t
            (sum_risk + risk_maps m (getVoxelIndex m (viadd pos_i ego_i)) t) rest)"

text \<open>\<^verbatim>\<open>getClearOcccupancy(pos, int t)\<close>: 0 free, 1 occupied, -1 out of bound.\<close>

definition getClearOcccupancy ::
  "FakeParticleRiskVoxel \<Rightarrow> vec3 \<Rightarrow> int \<Rightarrow> access_error + int" where
  "getClearOcccupancy m pos t =
    (let pos_f = vsub pos (pose m);
         pos_i = getVoxelRelIndex m pos_f
     in if \<not> isInRange m pos_i then Inr (- 1)
        else inflate_loop m pos_i t 0 (inflate_kernel m))"

text \<open>\<^verbatim>\<open>getClearOcccupancy(pos)\<close>.\<close>

definition getClearOcccupancy_pos :: "FakeParticleRiskVoxel \<Rightarrow> vec3 \<Rightarrow> access_error + int" where
  "getClearOcccupancy_pos m pos = getClearOcccupancy m pos 0"

text \<open>
  \<^verbatim>\<open>getClearOcccupancy(pos, double dt)\<close>. The quotient is converted to a 32-bit int
  after \<^verbatim>\<open>ceil\<close> and \<^verbatim>\<open>floor\<close>. The model keeps the exact integer, which is what the
  conversion gives for a quotient within the range of int; for a quotient outside that
  range the source's conversion is undefined and the model does not describe it. The
  slice of \<open>tc\<close> is read first, then the slice of \<open>tf\<close>.
\<close>

definition getClearOcccupancy_dt ::
  "FakeParticleRiskVoxel \<Rightarrow> vec3 \<Rightarrow> real \<Rightarrow> access_error + int" where
  "getClearOcccupancy_dt m pos dt =
    (let tc0 = \<lceil>dt / time_resolution m\<rceil>;
         tc = (if tc0 > PREDICTION_TIMES m then PREDICTION_TIMES m else tc0);
         tf0 = \<lfloor>dt / time_resolution m\<rfloor>;
         tf = (if tf0 > PREDICTION_TIMES m then PREDICTION_TIMES m else tf0)
     in case getClearOcccupancy m pos tc of
          Inl err \<Rightarrow> Inl err
        | Inr ret0 \<Rightarrow>
            (case getClearOcccupancy m pos tf of
               Inl err \<Rightarrow> Inl err
             | Inr ret1 \<Rightarrow>
                 if ret0 = - 1 \<or> ret1 = - 1 then Inr (- 1)
                 else if ret0 = 0 \<and> ret1 = 0 then Inr 0
                 else Inr 1))"

text \<open>
  A sample map: voxels of 0.1 m, 100 by 100 by 40 of them around the map centre, six
  slices 0.2 s apart, a kernel of the voxel itself and its two neighbours along x, and an
  obstacle in the voxel (3, 0, 0) at slice 2 only.
\<close>

definition map0 :: FakeParticleRiskVoxel where
  "map0 =
    \<lparr>pose = (0, 0, 1), time_resolution = 0.2, risk_threshold = 0.5,
     inflate_kernel = [(- 1, 0, 0), (0, 0, 0), (1, 0, 0)],
     risk_maps = (\<lambda>idx t. if idx = 205053 \<and> t = 2 then 1 else 0),
     PREDICTION_TIMES = 6,
     getVoxelRelIndex = (\<lambda>p. case p of (x, y, z) \<Rightarrow> (\<lfloor>x / 0.1\<rfloor>, \<lfloor>y / 0.1\<rfloor>, \<lfloor>z / 0.1\<rfloor>)),
     isInRange = (\<lambda>p. case p of (x, y, z) \<Rightarrow>
        - 50 \<le> x \<and> x < 50 \<and> - 50 \<le> y \<and> y < 50 \<and> - 20 \<le> z \<and> z < 20),
     getVoxelIndex = (\<lambda>p. case p of (x, y, z) \<Rightarrow>
        (z + 20) * 100 * 100 + (y + 50) * 100 + (x + 50))\<rparr>"

section \<open>BaselinePlanner (baseline.cpp)\<close>

text \<open>
  Rows of the 3 by 3 boundary-state matrices: position, velocity, acceleration. A
  polytope is the list of the rows of its matrix.
\<close>

type_synonym state3 = "vec3 \<times> vec3 \<times> vec3"

type_synonym hpoly = "(real \<times> real \<times> real \<times> real) list"

record BaselineParameters =
  cfg_a_star_search_time_step :: real
  cfg_opt_max_vel :: real
  cfg_opt_max_acc :: real

text \<open>
  The collaborators of one call of \<^verbatim>\<open>plan\<close>, none of them among the repository's
  files: the return code of \<^verbatim>\<open>a_star_->search\<close> by its last argument, the enumerator
  \<^verbatim>\<open>NO_PATH\<close>, the path \<^verbatim>\<open>getPath\<close> gives for a time step, the points the map and the
  deconfliction module append to \<^verbatim>\<open>pc\<close>, the polytopes \<^verbatim>\<open>convexCover\<close> builds, the
  verdict of the optimizer after \<^verbatim>\<open>setup\<close>, and the two checks of the deconfliction
  module.
\<close>

record plan_env =
  search :: "bool \<Rightarrow> int"
  NO_PATH :: int
  getPath :: "real \<Rightarrow> vec3 list"
  map_getObstaclePoints :: "vec3 list"
  avoider_getObstaclePoints :: "real \<Rightarrow> vec3 list"
  convexCover :: "vec3 list \<Rightarrow> vec3 list \<Rightarrow> vec3 \<Rightarrow> vec3 \<Rightarrow> real \<Rightarrow> real \<Rightarrow> hpoly list"
  setup_optimize :: "state3 \<Rightarrow> state3 \<Rightarrow> real list \<Rightarrow> hpoly list \<Rightarrow> real \<Rightarrow> real \<Rightarrow> bool"
  isSafeAfterOpt :: bool
  isSafeAfterChk :: bool

text \<open>
  The calls \<^verbatim>\<open>plan\<close> makes, with the arguments the claims are about: the searches,
  the corridor generation (route and box corners), the optimizer's \<^verbatim>\<open>setup\<close> (initial
  state, final state, time allocation, polytopes), and the two deconfliction checks.
\<close>

datatype plan_call =
    AstarSearch bool
  | ConvexCoverCall "vec3 list" vec3 vec3
  | OptimizerSetup state3 state3 "real list" "hpoly list"
  | SafeAfterOptCall
  | SafeAfterChkCall

text \<open>
  Where the source's behaviour is undefined: \<^verbatim>\<open>route[route.size() - 1]\<close> on an empty
  route, and \<^verbatim>\<open>_waypoints.pop()\<close> on an empty queue.
\<close>

datatype fault = RouteReadOutOfRange | PopEmptyQueue

text \<open>
  \<^verbatim>\<open>route.size() - 1\<close> is computed on 64-bit unsigned numbers, so it wraps for an empty
  route. In \<open>plan\<close> below, \<open>pos\<close>, \<open>vel\<close> and \<open>acc\<close> are the planner's
  \<^verbatim>\<open>odom_pos_\<close>, \<^verbatim>\<open>odom_vel_\<close> and \<^verbatim>\<open>odom_acc_\<close>.
\<close>

definition size_minus_one :: "'a list \<Rightarrow> nat" where
  "size_minus_one xs = (if xs = [] then 2 ^ 64 - 1 else length xs - 1)"

definition plan ::
  "BaselineParameters \<Rightarrow> plan_env \<Rightarrow> vec3 \<Rightarrow> vec3 \<Rightarrow> vec3 \<Rightarrow> (fault + bool) \<times> plan_call list" where
  "plan cfg env pos vel acc =
    (let rst1 = search env True;
         rst = (if rst1 = 0 then search env False else rst1);
         calls1 = (if rst1 = 0 then [AstarSearch True, AstarSearch False]
                   else [AstarSearch True])
     in if rst = NO_PATH env then (Inr False, calls1)
        else
          (let route0 = getPath env (cfg_a_star_search_time_step cfg);
               route = (if length route0 > 4 then take 4 route0 else route0);
               pc = map_getObstaclePoints env @
                    avoider_getObstaclePoints env
                      (cfg_a_star_search_time_step cfg * real (size_minus_one route));
               lower_corner = vadd (- 5, - 5, - 1) pos;
               higher_corner = vadd (5, 5, 3) pos;
               hPolys = convexCover env route pc lower_corner higher_corner 7 1;
               calls2 = calls1 @ [ConvexCoverCall route lower_corner higher_corner]
           in if route = [] then (Inl RouteReadOutOfRange, calls2)
              else
                (let local_goal = route ! (length route - 1);
                     time_alloc = replicate (length hPolys) (cfg_a_star_search_time_step cfg);
                     init_state = (pos, vel, acc);
                     final_state = (local_goal, zero3, zero3);
                     calls3 = calls2 @ [OptimizerSetup init_state final_state time_alloc hPolys]
                 in if \<not> setup_optimize env init_state final_state time_alloc hPolys
                           (cfg_opt_max_vel cfg) (cfg_opt_max_acc cfg)
                    then (Inr False, calls3)
                    else if \<not> isSafeAfterOpt env
                    then (Inr False, calls3 @ [SafeAfterOptCall])
                    else if \<not> isSafeAfterChk env
                    then (Inr False, calls3 @ [SafeAfterOptCall, SafeAfterChkCall])
                    else (Inr True, calls3 @ [SafeAfterOptCall, SafeAfterChkCall]))))"

definition is_geometry_call :: "plan_call \<Rightarrow> bool" where
  "is_geometry_call c =
    (case c of ConvexCoverCall r l h \<Rightarrow> True | OptimizerSetup i f ta hp \<Rightarrow> True | _ \<Rightarrow> False)"

section \<open>FiniteStateMachine (plan\_manager.cpp)\<close>

datatype FSM_STATUS =
  INIT | WAIT_TARGET | NEW_PLAN | REPLAN | EXEC_TRAJ | EMERGENCY_REPLAN | GOAL_REACHED | EXIT

record FSMConfig =
  goal_tolerance :: real
  replan_tolerance :: real
  replan_duration :: real

record FiniteStateMachine =
  status :: FSM_STATUS
  is_goal_received :: bool
  is_exec_triggered :: bool
  waypoints :: "vec3 list"
  goal :: vec3
  traj_idx :: int
  prev_plan_time :: real
  traj_start_time :: real

text \<open>
  What one tick of the timer reads from outside the file: the answers of
  \<^verbatim>\<open>isInputLost\<close>, \<^verbatim>\<open>checkTimeLapse\<close> and \<^verbatim>\<open>isGoalReached\<close> (declared in a header that
  is not among the files), the clock, and the planner with its odometry, its
  collaborators and the start time it reports.
\<close>

record tick =
  isInputLost :: bool
  checkTimeLapse :: "real \<Rightarrow> bool"
  isGoalReached :: bool
  now :: real
  planner_cfg :: BaselineParameters
  planner_env :: plan_env
  planner_pos :: vec3
  planner_vel :: vec3
  planner_acc :: vec3
  getTrajStartTime :: real

text \<open>A message on the topic \<^verbatim>\<open>trajectory\<close> or on \<^verbatim>\<open>/broadcast_traj\<close>, by its \<^verbatim>\<open>traj_id\<close>.\<close>

datatype fsm_output = PublishTraj int | BroadcastTraj int

definition FSMChangeState :: "FSM_STATUS \<Rightarrow> FiniteStateMachine \<Rightarrow> FiniteStateMachine" where
  "FSMChangeState new_state s = s\<lparr>status := new_state\<rparr>"

definition publishTrajectory ::
  "FiniteStateMachine \<Rightarrow> FiniteStateMachine \<times> fsm_output list" where
  "publishTrajectory s =
    (let s1 = s\<lparr>traj_idx := traj_idx s + 1\<rparr>
     in (s1, [PublishTraj (traj_idx s1), BroadcastTraj (traj_idx s1)]))"

definition isTrajectorySafe :: bool where
  "isTrajectorySafe = True"

text \<open>
  The statements of \<^verbatim>\<open>case FSM_STATUS::EXEC_TRAJ\<close> that follow
  \<^verbatim>\<open>bool is_safe = isTrajectorySafe();\<close>, with \<open>is_safe\<close> the value of that local
  variable. The transitions that read it are commented out in the source.
\<close>

definition exec_traj_body ::
  "bool \<Rightarrow> FSMConfig \<Rightarrow> tick \<Rightarrow> FiniteStateMachine \<Rightarrow> FiniteStateMachine" where
  "exec_traj_body is_safe cfgs tk s =
    (let s1 = (if checkTimeLapse tk (replan_duration cfgs) then FSMChangeState REPLAN s else s)
     in if isGoalReached tk then FSMChangeState GOAL_REACHED s1 else s1)"

definition FSMCallback ::
  "FSMConfig \<Rightarrow> tick \<Rightarrow> FiniteStateMachine \<Rightarrow> fault + FiniteStateMachine \<times> fsm_output list" where
  "FSMCallback cfgs tk s =
    (case status s of
       INIT \<Rightarrow> Inr (FSMChangeState WAIT_TARGET s, [])
     | WAIT_TARGET \<Rightarrow>
         if \<not> isInputLost tk \<and> is_goal_received s then Inr (FSMChangeState REPLAN s, [])
         else Inr (s, [])
     | NEW_PLAN \<Rightarrow>
         if isInputLost tk then Inr (FSMChangeState WAIT_TARGET s, [])
         else
           (let is_success = False;
                is_safe = True;
                (s1, out) = (if is_success \<and> is_safe then publishTrajectory s else (s, []))
            in if is_exec_triggered s1 then Inr (FSMChangeState EXEC_TRAJ s1, out)
               else Inr (s1, out))
     | EXEC_TRAJ \<Rightarrow>
         if isInputLost tk then Inr (FSMChangeState WAIT_TARGET s, [])
         else Inr (exec_traj_body isTrajectorySafe cfgs tk s, [])
     | REPLAN \<Rightarrow>
         if isInputLost tk then Inr (FSMChangeState WAIT_TARGET s, [])
         else
           (case fst (plan (planner_cfg tk) (planner_env tk) (planner_pos tk) (planner_vel tk)
                        (planner_acc tk)) of
              Inl f \<Rightarrow> Inl f
            | Inr is_success \<Rightarrow>
                (let is_finished = isGoalReached tk
                 in if is_success \<and> \<not> is_finished then
                      (case publishTrajectory
                              (s\<lparr>prev_plan_time := now tk,
                                 traj_start_time := getTrajStartTime tk\<rparr>) of
                         (s1, out) \<Rightarrow> Inr (FSMChangeState EXEC_TRAJ s1, out))
                    else if is_finished then Inr (FSMChangeState GOAL_REACHED s, [])
                    else Inr (s, [])))
     | GOAL_REACHED \<Rightarrow>
         (case waypoints s of
            [] \<Rightarrow> Inl PopEmptyQueue
          | w # ws \<Rightarrow>
              Inr (FSMChangeState WAIT_TARGET
                     (s\<lparr>is_goal_received := False, is_exec_triggered := False,
                        waypoints := ws\<rparr>), []))
     | EXIT \<Rightarrow> Inr (s, [])
     | EMERGENCY_REPLAN \<Rightarrow> Inr (s, []))"

text \<open>Sample collaborators: a straight path of \<open>n\<close> nodes one metre apart.\<close>

definition straight_path :: "nat \<Rightarrow> vec3 list" where
  "straight_path n = map (\<lambda>k. (real k, 0, 1)) [0..<n]"

definition env_of :: "nat \<Rightarrow> bool \<Rightarrow> bool \<Rightarrow> plan_env" where
  "env_of n safe_opt safe_chk =
    \<lparr>search = (\<lambda>b. 1), NO_PATH = 0, getPath = (\<lambda>step. straight_path n),
     map_getObstaclePoints = [], avoider_getObstaclePoints = (\<lambda>horizon. []),
     convexCover = (\<lambda>route pc lc hc bloat shrink. replicate (length route - 1) []),
     setup_optimize = (\<lambda>init final ta hp vmax amax. True),
     isSafeAfterOpt = safe_opt, isSafeAfterChk = safe_chk\<rparr>"

definition cfg0 :: BaselineParameters where
  "cfg0 = \<lparr>cfg_a_star_search_time_step = 0.4, cfg_opt_max_vel = 3, cfg_opt_max_acc = 4\<rparr>"

definition cfgs0 :: FSMConfig where
  "cfgs0 = \<lparr>goal_tolerance = 1, replan_tolerance = 1, replan_duration = 0.1\<rparr>"

definition tick_of :: "plan_env \<Rightarrow> tick" where
  "tick_of env =
    \<lparr>isInputLost = False, checkTimeLapse = (\<lambda>d. False), isGoalReached = False, now = 10,
     planner_cfg = cfg0, planner_env = env, planner_pos = (0, 0, 1), planner_vel = zero3,
     planner_acc = zero3, getTrajStartTime = 10\<rparr>"

definition fsm_in :: "FSM_STATUS \<Rightarrow> FiniteStateMachine" where
  "fsm_in st =
    \<lparr>status = st, is_goal_received = True, is_exec_triggered = True,
     waypoints = [(5, 0, 1)], goal = (5, 0, 1), traj_idx = 0, prev_plan_time = 0,
     traj_start_time = 0\<rparr>"

section \<open>Properties\<close>

subsection \<open>The acceleration differentiator\<close>

lemma VelCallback_odom_acc:
  "odom_acc (VelCallback conf t_diff t_store v s) = odom_acc s"
  by (simp add: VelCallback_def Let_def)

text \<open>
  C1, evaluated on the code. The first sample, velocity (0, 0, 0) at time 1, is followed
  by the sample (1, 0, 0) at time 2. The specification's differentiator gives the
  acceleration (1, 0, 0) for the second sample; the callback leaves the stored
  acceleration (9, 9, 9) as it was, because its first-sample flag is a local variable
  that is true at every call.
\<close>

theorem VelCallback_never_differentiates:
  "odom_acc (VelCallback conf0 2 2 (1, 0, 0) (VelCallback conf0 1 1 (0, 0, 0) planner0))
     = (9, 9, 9)
   \<and> spec_differentiate (max_differentiated_current_a conf0) (1, 0, 0) 2
       (prev_vx (VelCallback conf0 1 1 (0, 0, 0) planner0),
        prev_vy (VelCallback conf0 1 1 (0, 0, 0) planner0),
        prev_vz (VelCallback conf0 1 1 (0, 0, 0) planner0))
       (prev_t (VelCallback conf0 1 1 (0, 0, 0) planner0))
     = (1, 0, 0)"
  by (simp add: VelCallback_def Let_def planner0_def conf0_def spec_differentiate_def
      clip_acc_def dead_zone_def)

subsection \<open>The tightening loop\<close>

text \<open>
  The loop calls \<^verbatim>\<open>reOptimize\<close> at most \<open>I\<close> times in all; no path through it ends in
  \<^verbatim>\<open>return true\<close>, since the source has no such statement; and the call of
  \<^verbatim>\<open>reOptimize\<close> that ends the loop decides the result: an int exception and a
  failed solve give the return value false, another exception leaves the function.
  Calls are numbered from 0, so the call number \<open>k\<close> was made when \<open>k\<close> is below the
  number of calls in the result.
\<close>

lemma tighten_loop_props:
  "snd (snd (tighten_loop opt I i tr)) \<le> max I i
   \<and> fst (tighten_loop opt I i tr) \<noteq> Returned True
   \<and> (\<forall>k. i \<le> k \<and> k < snd (snd (tighten_loop opt I i tr)) \<longrightarrow>
        (\<forall>e. reOptimize opt k = Throws (IntExn e) \<longrightarrow>
               fst (tighten_loop opt I i tr) = Returned False) \<and>
        (\<forall>x. reOptimize opt k = Throws (OtherExn x) \<longrightarrow>
               fst (tighten_loop opt I i tr) = Propagates (OtherExn x)) \<and>
        (reOptimize opt k = Returns False \<longrightarrow>
               fst (tighten_loop opt I i tr) = Returned False))"
proof (induction opt I i tr rule: tighten_loop.induct)
  case (1 opt I i tr)
  note unfold = tighten_loop.simps [of opt I i tr]
  show ?case
  proof (cases "isCorridorSatisfied opt tr")
    case (Throws x)
    then show ?thesis by (auto simp: unfold)
  next
    case sat: (Returns satisfied)
    show ?thesis
    proof (cases "\<not> satisfied \<and> i < I")
      case False
      with sat show ?thesis by (auto simp: unfold)
    next
      case go: True
      show ?thesis
      proof (cases "reOptimize opt i")
        case (Throws x)
        with sat go show ?thesis
          by (cases x) (auto simp: unfold less_Suc_eq_le)
      next
        case re: (Returns is_solved)
        show ?thesis
        proof (cases is_solved)
          case False
          with sat go re show ?thesis
            by (auto simp: unfold less_Suc_eq_le)
        next
          case solved: True
          show ?thesis
          proof (cases "getTrajectory opt (Suc i)")
            case (Throws x)
            with sat go re solved show ?thesis
              by (auto simp: unfold less_Suc_eq_le)
          next
            case tr': (Returns tr')
            have eq: "tighten_loop opt I i tr = tighten_loop opt I (Suc i) tr'"
              using sat go re solved tr' by (simp add: unfold)
            note IH = "1.IH" [OF sat go re solved tr']
            have a: "snd (snd (tighten_loop opt I (Suc i) tr')) \<le> max I i"
              using IH go by (simp add: max_def split: if_splits)
            have b: "fst (tighten_loop opt I (Suc i) tr') \<noteq> Returned True"
              using IH by simp
            have c: "(\<forall>e. reOptimize opt k = Throws (IntExn e) \<longrightarrow>
                         fst (tighten_loop opt I (Suc i) tr') = Returned False) \<and>
                     (\<forall>x. reOptimize opt k = Throws (OtherExn x) \<longrightarrow>
                         fst (tighten_loop opt I (Suc i) tr') = Propagates (OtherExn x)) \<and>
                     (reOptimize opt k = Returns False \<longrightarrow>
                         fst (tighten_loop opt I (Suc i) tr') = Returned False)"
              if k: "i \<le> k" "k < snd (snd (tighten_loop opt I (Suc i) tr'))" for k
            proof (cases "k = i")
              case True
              with re solved show ?thesis by simp
            next
              case False
              with k have "Suc i \<le> k" by simp
              with IH k(2) show ?thesis by blast
            qed
            from a b c show ?thesis unfolding eq by blast
          qed
        qed
      qed
    qed
  qed
qed

lemma tighten_loop_calls: "snd (snd (tighten_loop opt I i tr)) \<le> max I i"
  using tighten_loop_props [of opt I i tr] by blast

lemma tighten_loop_not_true: "fst (tighten_loop opt I i tr) \<noteq> Returned True"
  using tighten_loop_props [of opt I i tr] by blast

lemma OptimizationInCorridors_calls: "snd (snd (OptimizationInCorridors opt s)) \<le> 10"
proof -
  have "snd (snd (tighten_loop opt 10 0 tr0)) \<le> 10" for tr0
    using tighten_loop_calls [of opt 10 0 tr0] by simp
  then show ?thesis
    by (simp add: OptimizationInCorridors_def case_prod_beta split: outcome.splits exn.splits)
qed

lemma OptimizationInCorridors_not_true:
  "fst (OptimizationInCorridors opt s) \<noteq> Returned True"
proof -
  have "fst (tighten_loop opt 10 0 tr0) \<noteq> Returned True" for tr0
    by (rule tighten_loop_not_true)
  then show ?thesis
    by (simp add: OptimizationInCorridors_def case_prod_beta split: outcome.splits exn.splits)
qed

text \<open>
  The same for the routine: the call number \<open>k\<close> of \<^verbatim>\<open>reOptimize\<close>, when the routine
  makes it, decides the result if it throws or reports no solution.
\<close>

lemma OptimizationInCorridors_last_call:
  assumes "k < snd (snd (OptimizationInCorridors opt s))"
  shows "(\<forall>e. reOptimize opt k = Throws (IntExn e) \<longrightarrow>
            fst (OptimizationInCorridors opt s) = Returned False) \<and>
         (\<forall>x. reOptimize opt k = Throws (OtherExn x) \<longrightarrow>
            fst (OptimizationInCorridors opt s) = Propagates (OtherExn x)) \<and>
         (reOptimize opt k = Returns False \<longrightarrow>
            fst (OptimizationInCorridors opt s) = Returned False)"
proof (cases "\<exists>tr0. reset opt = Returns () \<and> optimize opt = Returns True \<and>
                getTrajectory opt 0 = Returns tr0")
  case False
  then have "snd (snd (OptimizationInCorridors opt s)) = 0"
    by (auto simp: OptimizationInCorridors_def split: outcome.splits exn.splits)
  with assms show ?thesis by simp
next
  case True
  then obtain tr0 where r: "reset opt = Returns ()" "optimize opt = Returns True"
    "getTrajectory opt 0 = Returns tr0" by blast
  have f: "fst (OptimizationInCorridors opt s) = fst (tighten_loop opt 10 0 tr0)"
    and n: "snd (snd (OptimizationInCorridors opt s)) = snd (snd (tighten_loop opt 10 0 tr0))"
    using r by (simp_all add: OptimizationInCorridors_def split: prod.splits)
  from assms n have "0 \<le> k \<and> k < snd (snd (tighten_loop opt 10 0 tr0))" by simp
  with tighten_loop_props [of opt 10 0 tr0] show ?thesis unfolding f by blast
qed

text \<open>
  C8, evaluated on the code. The optimizer solves the first problem, every call of
  \<^verbatim>\<open>reOptimize\<close> succeeds, and \<^verbatim>\<open>isCorridorSatisfied\<close> rejects every trajectory. The
  loop calls \<^verbatim>\<open>reOptimize\<close> ten times and stops, as the claim says; then the routine
  reaches the end of its body with no return statement. It reports no failure: it ends
  exactly as it does when the first trajectory satisfies the corridor (second conjunct).
\<close>

theorem OptimizationInCorridors_cap_reports_nothing:
  "OptimizationInCorridors opt_never_satisfied planner1
     = (FlowsOffEnd, planner1\<lparr>traj := 11\<rparr>, 10)
   \<and> OptimizationInCorridors opt_satisfied planner1
     = (FlowsOffEnd, planner1\<lparr>traj := 1\<rparr>, 0)"
  by (simp add: OptimizationInCorridors_def opt_never_satisfied_def opt_satisfied_def
      tighten_loop.simps)

subsection \<open>The planning cycle\<close>

text \<open>
  C7. In a cycle that runs the search (the risk map has been received), a node list of
  length at most 1 or at least 10 ends the cycle in the failure branch: the state, and so
  the stored trajectory, is unchanged, and the only things emitted are the three clearing
  calls of the visualizer; no corridor is built and the optimization routine is not
  called. A node list of 2 to 9 nodes leads to the corridor generator, the publication
  of the corridor message and the call of the optimization routine, whose result is the
  result of the cycle.
\<close>

theorem TrajTimerCallback_degenerate_path:
  assumes "is_future_risk_updated s"
  shows "(length (astar_search cyc (start_node conf s) (end_node conf s)) \<le> 1 \<or>
          10 \<le> length (astar_search cyc (start_node conf s) (end_node conf s)) \<longrightarrow>
          TrajTimerCallback conf cyc s =
            (AstarFailed, s,
             [VisualizeAstarPath 0 True, VisualizeAstarPath 1 True, VisualizeCorridors 0 True]))
       \<and> (2 \<le> length (astar_search cyc (start_node conf s) (end_node conf s)) \<and>
          length (astar_search cyc (start_node conf s) (end_node conf s)) \<le> 9 \<longrightarrow>
          (let s1 = s\<lparr>ref_direction_angle := new_ref_direction_angle conf s
                       (astar_search cyc (start_node conf s) (end_node conf s))\<rparr>;
               msg = make_corridor_msg conf s1
                       (astar_search cyc (start_node conf s) (end_node conf s))
                       (findCorridors cyc);
               r = OptimizationInCorridors (traj_optimizer cyc msg) s1
           in TrajTimerCallback conf cyc s =
                (Optimized (fst r), fst (snd r),
                 [VisualizeAstarPath 0 False, VisualizeAstarPath 1 False, FindCorridors,
                  PublishCorridor msg, VisualizeCorridors (findCorridors cyc)
                    (is_rviz_map_center_locked conf),
                  CallOptimizationInCorridors])))"
  using assms by (auto simp: TrajTimerCallback_def Let_def split: prod.splits)

lemma length_path_of: "length (path_of n) = n"
  by (simp add: path_of_def)

theorem TrajTimerCallback_degenerate_path_witness:
  "is_future_risk_updated planner1
   \<and> length (astar_search (cycle_of 1 opt_satisfied) (start_node conf0 planner1)
        (end_node conf0 planner1)) \<le> 1
   \<and> TrajTimerCallback conf0 (cycle_of 1 opt_satisfied) planner1 =
       (AstarFailed, planner1,
        [VisualizeAstarPath 0 True, VisualizeAstarPath 1 True, VisualizeCorridors 0 True])
   \<and> 10 \<le> length (astar_search (cycle_of 10 opt_satisfied) (start_node conf0 planner1)
        (end_node conf0 planner1))
   \<and> TrajTimerCallback conf0 (cycle_of 10 opt_satisfied) planner1 =
       (AstarFailed, planner1,
        [VisualizeAstarPath 0 True, VisualizeAstarPath 1 True, VisualizeCorridors 0 True])
   \<and> 2 \<le> length (astar_search (cycle_of 9 opt_satisfied) (start_node conf0 planner1)
        (end_node conf0 planner1))
   \<and> length (astar_search (cycle_of 9 opt_satisfied) (start_node conf0 planner1)
        (end_node conf0 planner1)) \<le> 9
   \<and> TrajTimerCallback conf0 (cycle_of 9 opt_satisfied) planner1 =
       (Optimized FlowsOffEnd,
        planner1\<lparr>ref_direction_angle := new_ref_direction_angle conf0 planner1 (path_of 9),
                 traj := 1\<rparr>,
        [VisualizeAstarPath 0 False, VisualizeAstarPath 1 False, FindCorridors,
         PublishCorridor (make_corridor_msg conf0 planner1 (path_of 9) 2),
         VisualizeCorridors 2 False, CallOptimizationInCorridors])"
proof -
  have u: "is_future_risk_updated planner1"
    by (simp add: planner1_def)
  have oic: "OptimizationInCorridors opt_satisfied s = (FlowsOffEnd, s\<lparr>traj := 1\<rparr>, 0)"
    for s :: "nat Planner"
    by (simp add: OptimizationInCorridors_def opt_satisfied_def tighten_loop.simps)
  have m: "make_corridor_msg conf0 (s\<lparr>ref_direction_angle := a\<rparr>) rst n
             = make_corridor_msg conf0 s rst n" for s :: "nat Planner" and a rst n
    by (simp add: make_corridor_msg_def)
  have c: "traj_optimizer (cycle_of 9 opt_satisfied) = (\<lambda>msg. opt_satisfied)"
       "findCorridors (cycle_of 9 opt_satisfied) = 2"
       "is_rviz_map_center_locked conf0 = False"
       "astar_search (cycle_of n opt_satisfied) = (\<lambda>a b. path_of n)" for n
    by (simp_all add: cycle_of_def conf0_def)
  show ?thesis
    using u TrajTimerCallback_degenerate_path [OF u, of "cycle_of 1 opt_satisfied" conf0]
      TrajTimerCallback_degenerate_path [OF u, of "cycle_of 10 opt_satisfied" conf0]
      TrajTimerCallback_degenerate_path [OF u, of "cycle_of 9 opt_satisfied" conf0]
    by (simp add: length_path_of Let_def oic c m)
qed

subsection \<open>Exceptions of the optimizer\<close>

text \<open>
  C9 as stated fails: the handlers are \<^verbatim>\<open>catch (int e)\<close>. An exception of another type
  thrown by \<^verbatim>\<open>optimize\<close> leaves the optimization routine and the timer callback, which
  has no handler.
\<close>

theorem OptimizationInCorridors_other_exception_propagates:
  "fst (OptimizationInCorridors opt_bad_alloc planner1)
     = Propagates (OtherExn ''std::bad_alloc'')
   \<and> fst (TrajTimerCallback conf0 (cycle_of 2 opt_bad_alloc) planner1)
       = Optimized (Propagates (OtherExn ''std::bad_alloc''))"
  by (simp add: OptimizationInCorridors_def opt_bad_alloc_def opt_satisfied_def
      TrajTimerCallback_def cycle_of_def planner1_def planner0_def length_path_of Let_def)

text \<open>
  C9, amended. When \<^verbatim>\<open>optimize\<close> is called (\<^verbatim>\<open>reset\<close> has returned): an int it throws
  is turned into the return value false, an exception of another type leaves the
  routine, and a solver that reports no solution gives the return value false. The same
  holds for every call of \<^verbatim>\<open>reOptimize\<close> the routine makes (the call number \<open>k\<close>, with
  \<open>k\<close> below the number of calls made). The timer callback takes the routine's result
  as the result of the cycle: after a return value it ends normally, and an exception
  that leaves the routine leaves the callback.
\<close>

theorem OptimizationInCorridors_int_exceptions_caught:
  "(reset opt = Returns () \<and> optimize opt = Throws (IntExn e) \<longrightarrow>
      fst (OptimizationInCorridors opt s) = Returned False)
   \<and> (reset opt = Returns () \<and> optimize opt = Throws (OtherExn x) \<longrightarrow>
      fst (OptimizationInCorridors opt s) = Propagates (OtherExn x))
   \<and> (reset opt = Returns () \<and> optimize opt = Returns False \<longrightarrow>
      fst (OptimizationInCorridors opt s) = Returned False)
   \<and> (k < snd (snd (OptimizationInCorridors opt s)) \<and> reOptimize opt k = Throws (IntExn e) \<longrightarrow>
      fst (OptimizationInCorridors opt s) = Returned False)
   \<and> (k < snd (snd (OptimizationInCorridors opt s)) \<and> reOptimize opt k = Throws (OtherExn x) \<longrightarrow>
      fst (OptimizationInCorridors opt s) = Propagates (OtherExn x))
   \<and> (k < snd (snd (OptimizationInCorridors opt s)) \<and> reOptimize opt k = Returns False \<longrightarrow>
      fst (OptimizationInCorridors opt s) = Returned False)
   \<and> (is_future_risk_updated s \<and>
        2 \<le> length (astar_search cyc (start_node conf s) (end_node conf s)) \<and>
        length (astar_search cyc (start_node conf s) (end_node conf s)) \<le> 9 \<longrightarrow>
        fst (TrajTimerCallback conf cyc s) =
          Optimized (fst (OptimizationInCorridors
            (traj_optimizer cyc (make_corridor_msg conf s
               (astar_search cyc (start_node conf s) (end_node conf s)) (findCorridors cyc)))
            (s\<lparr>ref_direction_angle := new_ref_direction_angle conf s
                 (astar_search cyc (start_node conf s) (end_node conf s))\<rparr>))))"
proof -
  have a: "reset opt = Returns () \<and> optimize opt = Throws (IntExn e) \<longrightarrow>
      fst (OptimizationInCorridors opt s) = Returned False"
    by (simp add: OptimizationInCorridors_def)
  have b: "reset opt = Returns () \<and> optimize opt = Throws (OtherExn x) \<longrightarrow>
      fst (OptimizationInCorridors opt s) = Propagates (OtherExn x)"
    by (simp add: OptimizationInCorridors_def)
  have c: "reset opt = Returns () \<and> optimize opt = Returns False \<longrightarrow>
      fst (OptimizationInCorridors opt s) = Returned False"
    by (simp add: OptimizationInCorridors_def)
  have d: "k < snd (snd (OptimizationInCorridors opt s)) \<longrightarrow>
      (\<forall>e. reOptimize opt k = Throws (IntExn e) \<longrightarrow>
            fst (OptimizationInCorridors opt s) = Returned False) \<and>
      (\<forall>x. reOptimize opt k = Throws (OtherExn x) \<longrightarrow>
            fst (OptimizationInCorridors opt s) = Propagates (OtherExn x)) \<and>
      (reOptimize opt k = Returns False \<longrightarrow>
            fst (OptimizationInCorridors opt s) = Returned False)"
    using OptimizationInCorridors_last_call [of k opt s] by blast
  have f: "is_future_risk_updated s \<and>
        2 \<le> length (astar_search cyc (start_node conf s) (end_node conf s)) \<and>
        length (astar_search cyc (start_node conf s) (end_node conf s)) \<le> 9 \<longrightarrow>
        fst (TrajTimerCallback conf cyc s) =
          Optimized (fst (OptimizationInCorridors
            (traj_optimizer cyc (make_corridor_msg conf s
               (astar_search cyc (start_node conf s) (end_node conf s)) (findCorridors cyc)))
            (s\<lparr>ref_direction_angle := new_ref_direction_angle conf s
                 (astar_search cyc (start_node conf s) (end_node conf s))\<rparr>)))"
    by (auto simp: TrajTimerCallback_def Let_def make_corridor_msg_def split: prod.splits)
  from a b c d f show ?thesis by blast
qed

lemma OptimizationInCorridors_samples:
  "OptimizationInCorridors opt_reopt_throws_int planner1
     = (Returned False, planner1\<lparr>traj := 3\<rparr>, 3)"
  "OptimizationInCorridors opt_reopt_bad_alloc planner1
     = (Propagates (OtherExn ''std::bad_alloc''), planner1\<lparr>traj := 3\<rparr>, 3)"
  "OptimizationInCorridors opt_reopt_infeasible planner1
     = (Returned False, planner1\<lparr>traj := 3\<rparr>, 3)"
  by (simp_all add: OptimizationInCorridors_def opt_reopt_throws_int_def
      opt_reopt_bad_alloc_def opt_reopt_infeasible_def opt_never_satisfied_def
      tighten_loop.simps)

theorem OptimizationInCorridors_int_exceptions_caught_witness:
  "reset opt_throws_int = Returns () \<and> optimize opt_throws_int = Throws (IntExn 1)
   \<and> fst (OptimizationInCorridors opt_throws_int planner1) = Returned False
   \<and> reset opt_bad_alloc = Returns ()
   \<and> optimize opt_bad_alloc = Throws (OtherExn ''std::bad_alloc'')
   \<and> fst (OptimizationInCorridors opt_bad_alloc planner1)
       = Propagates (OtherExn ''std::bad_alloc'')
   \<and> reset opt_infeasible = Returns () \<and> optimize opt_infeasible = Returns False
   \<and> fst (OptimizationInCorridors opt_infeasible planner1) = Returned False
   \<and> 2 < snd (snd (OptimizationInCorridors opt_reopt_throws_int planner1))
   \<and> reOptimize opt_reopt_throws_int 2 = Throws (IntExn 7)
   \<and> fst (OptimizationInCorridors opt_reopt_throws_int planner1) = Returned False
   \<and> 2 < snd (snd (OptimizationInCorridors opt_reopt_bad_alloc planner1))
   \<and> reOptimize opt_reopt_bad_alloc 2 = Throws (OtherExn ''std::bad_alloc'')
   \<and> fst (OptimizationInCorridors opt_reopt_bad_alloc planner1)
       = Propagates (OtherExn ''std::bad_alloc'')
   \<and> 2 < snd (snd (OptimizationInCorridors opt_reopt_infeasible planner1))
   \<and> reOptimize opt_reopt_infeasible 2 = Returns False
   \<and> fst (OptimizationInCorridors opt_reopt_infeasible planner1) = Returned False
   \<and> is_future_risk_updated planner1
   \<and> 2 \<le> length (astar_search (cycle_of 2 opt_throws_int) (start_node conf0 planner1)
        (end_node conf0 planner1))
   \<and> length (astar_search (cycle_of 2 opt_throws_int) (start_node conf0 planner1)
        (end_node conf0 planner1)) \<le> 9
   \<and> fst (TrajTimerCallback conf0 (cycle_of 2 opt_throws_int) planner1)
       = Optimized (Returned False)"
proof -
  have h1: "reset opt_throws_int = Returns () \<and> optimize opt_throws_int = Throws (IntExn 1)"
    by (simp add: opt_throws_int_def opt_satisfied_def)
  have h2: "reset opt_bad_alloc = Returns () \<and>
      optimize opt_bad_alloc = Throws (OtherExn ''std::bad_alloc'')"
    by (simp add: opt_bad_alloc_def opt_satisfied_def)
  have h3: "reset opt_infeasible = Returns () \<and> optimize opt_infeasible = Returns False"
    by (simp add: opt_infeasible_def opt_satisfied_def)
  have h4: "2 < snd (snd (OptimizationInCorridors opt_reopt_throws_int planner1)) \<and>
      reOptimize opt_reopt_throws_int 2 = Throws (IntExn 7)"
    by (simp add: OptimizationInCorridors_samples) (simp add: opt_reopt_throws_int_def)
  have h5: "2 < snd (snd (OptimizationInCorridors opt_reopt_bad_alloc planner1)) \<and>
      reOptimize opt_reopt_bad_alloc 2 = Throws (OtherExn ''std::bad_alloc'')"
    by (simp add: OptimizationInCorridors_samples) (simp add: opt_reopt_bad_alloc_def)
  have h6: "2 < snd (snd (OptimizationInCorridors opt_reopt_infeasible planner1)) \<and>
      reOptimize opt_reopt_infeasible 2 = Returns False"
    by (simp add: OptimizationInCorridors_samples) (simp add: opt_reopt_infeasible_def)
  have h7: "is_future_risk_updated planner1
     \<and> 2 \<le> length (astar_search (cycle_of 2 opt_throws_int) (start_node conf0 planner1)
          (end_node conf0 planner1))
     \<and> length (astar_search (cycle_of 2 opt_throws_int) (start_node conf0 planner1)
          (end_node conf0 planner1)) \<le> 9"
    by (simp add: planner1_def cycle_of_def length_path_of)
  have t: "traj_optimizer (cycle_of 2 opt_throws_int) = (\<lambda>msg. opt_throws_int)"
    "astar_search (cycle_of 2 opt_throws_int) = (\<lambda>a b. path_of 2)"
    by (simp_all add: cycle_of_def)
  note T1 = OptimizationInCorridors_int_exceptions_caught
    [where opt = opt_throws_int and e = 1 and s = planner1]
  note T2 = OptimizationInCorridors_int_exceptions_caught
    [where opt = opt_bad_alloc and x = "''std::bad_alloc''" and s = planner1]
  note T3 = OptimizationInCorridors_int_exceptions_caught
    [where opt = opt_infeasible and s = planner1]
  note T4 = OptimizationInCorridors_int_exceptions_caught
    [where opt = opt_reopt_throws_int and e = 7 and k = 2 and s = planner1]
  note T5 = OptimizationInCorridors_int_exceptions_caught
    [where opt = opt_reopt_bad_alloc and x = "''std::bad_alloc''" and k = 2 and s = planner1]
  note T6 = OptimizationInCorridors_int_exceptions_caught
    [where opt = opt_reopt_infeasible and k = 2 and s = planner1]
  note T7 = OptimizationInCorridors_int_exceptions_caught
    [where opt = opt_throws_int and e = 1
       and s = "planner1\<lparr>ref_direction_angle :=
                  new_ref_direction_angle conf0 planner1 (path_of 2)\<rparr>"]
  note T8 = OptimizationInCorridors_int_exceptions_caught
    [where s = planner1 and conf = conf0 and cyc = "cycle_of 2 opt_throws_int"]
  have c1: "fst (OptimizationInCorridors opt_throws_int planner1) = Returned False"
    using T1 h1 by blast
  have c2: "fst (OptimizationInCorridors opt_bad_alloc planner1)
       = Propagates (OtherExn ''std::bad_alloc'')"
    using T2 h2 by blast
  have c3: "fst (OptimizationInCorridors opt_infeasible planner1) = Returned False"
    using T3 h3 by blast
  have c4: "fst (OptimizationInCorridors opt_reopt_throws_int planner1) = Returned False"
    using T4 h4 by blast
  have c5: "fst (OptimizationInCorridors opt_reopt_bad_alloc planner1)
       = Propagates (OtherExn ''std::bad_alloc'')"
    using T5 h5 by blast
  have c6: "fst (OptimizationInCorridors opt_reopt_infeasible planner1) = Returned False"
    using T6 h6 by blast
  have c7': "fst (OptimizationInCorridors opt_throws_int
                (planner1\<lparr>ref_direction_angle :=
                   new_ref_direction_angle conf0 planner1 (path_of 2)\<rparr>)) = Returned False"
    using T7 h1 by blast
  have c7: "fst (TrajTimerCallback conf0 (cycle_of 2 opt_throws_int) planner1)
       = Optimized (Returned False)"
    using T8 h7 c7' by (simp add: t)
  from h1 h2 h3 h4 h5 h6 h7 c1 c2 c3 c4 c5 c6 c7 show ?thesis by blast
qed

subsection \<open>Occupancy queries\<close>


lemma inflate_loop_beyond:
  "PREDICTION_TIMES m \<le> t \<Longrightarrow>
   inflate_loop m p t s ker =
     (if list_ex (\<lambda>e. isInRange m (viadd p e)) ker then Inl (SliceOutOfBounds t) else Inr 0)"
  by (induction ker arbitrary: s) auto






text \<open>
  C6. At a position whose voxel coordinates are outside the local range, each of the
  three overloads answers -1, whatever the slice or the time offset.
\<close>

theorem getClearOcccupancy_out_of_range_result:
  assumes "\<not> isInRange m (getVoxelRelIndex m (vsub pos (pose m)))"
  shows "getClearOcccupancy m pos t = Inr (- 1)
       \<and> getClearOcccupancy_pos m pos = Inr (- 1)
       \<and> getClearOcccupancy_dt m pos dt = Inr (- 1)"
  using assms
  by (simp add: getClearOcccupancy_def getClearOcccupancy_pos_def getClearOcccupancy_dt_def Let_def)



theorem getClearOcccupancy_out_of_range_result_witness:
  "\<not> isInRange map0 (getVoxelRelIndex map0 (vsub (7, 0, 1) (pose map0)))
   \<and> getClearOcccupancy map0 (7, 0, 1) 3 = Inr (- 1)
   \<and> getClearOcccupancy_pos map0 (7, 0, 1) = Inr (- 1)
   \<and> getClearOcccupancy_dt map0 (7, 0, 1) 0.5 = Inr (- 1)"
proof -
  have h: "\<not> isInRange map0 (getVoxelRelIndex map0 (vsub (7, 0, 1) (pose map0)))"
    by (simp add: map0_def vsub_def)
  show ?thesis
    using h getClearOcccupancy_out_of_range_result [OF h, of 3 "0.5"] by simp
qed

text \<open>
  Past the last slice: when \<open>dt / time_resolution\<close> exceeds \<open>PREDICTION_TIMES - 1\<close>,
  the ceiling index is \<^verbatim>\<open>PREDICTION_TIMES\<close> or is clamped to it, and an in-range
  position with an in-range kernel offset reads that slice.
\<close>

lemma getClearOcccupancy_dt_past_horizon:
  assumes "0 < time_resolution m"
    and "real_of_int (PREDICTION_TIMES m - 1) < dt / time_resolution m"
    and "isInRange m (getVoxelRelIndex m (vsub pos (pose m)))"
    and "list_ex (\<lambda>e. isInRange m (viadd (getVoxelRelIndex m (vsub pos (pose m))) e))
           (inflate_kernel m)"
  shows "getClearOcccupancy_dt m pos dt = Inl (SliceOutOfBounds (PREDICTION_TIMES m))"
proof -
  have "PREDICTION_TIMES m - 1 < \<lceil>dt / time_resolution m\<rceil>"
    using assms(2) by (simp add: less_ceiling_iff)
  then have tc: "(if \<lceil>dt / time_resolution m\<rceil> > PREDICTION_TIMES m then PREDICTION_TIMES m
                 else \<lceil>dt / time_resolution m\<rceil>) = PREDICTION_TIMES m"
    by simp
  have "getClearOcccupancy m pos (PREDICTION_TIMES m) = Inl (SliceOutOfBounds (PREDICTION_TIMES m))"
    using assms(3,4) by (simp add: getClearOcccupancy_def Let_def inflate_loop_beyond)
  then show ?thesis
    unfolding getClearOcccupancy_dt_def Let_def tc by simp
qed

text \<open>
  C5, evaluated on the code. With six slices 0.2 s apart, the time offset 1.2 s gives the
  ceiling index 6; the clamp tests \<^verbatim>\<open>tc > PREDICTION_TIMES\<close>, so 6 passes, and the query
  reads \<^verbatim>\<open>risk_maps_[idx][6]\<close>, one past the last slice 5.
\<close>

theorem getClearOcccupancy_dt_reads_beyond_last_slice:
  "PREDICTION_TIMES map0 = 6
   \<and> \<lceil>1.2 / time_resolution map0\<rceil> = 6
   \<and> getClearOcccupancy_dt map0 (0.25, 0, 1) 1.2 = Inl (SliceOutOfBounds 6)"
  by (simp add: getClearOcccupancy_dt_def getClearOcccupancy_def map0_def vsub_def viadd_def
      Let_def)

subsection \<open>The baseline planner and the supervisor\<close>

lemma length_straight_path: "length (straight_path n) = n"
  by (simp add: straight_path_def)

lemma straight_path_Nil: "straight_path n = [] \<longleftrightarrow> n = 0"
  by (simp add: straight_path_def)

lemma straight_path_nth: "k < n \<Longrightarrow> straight_path n ! k = (real k, 0, 1)"
  by (simp add: straight_path_def)

text \<open>
  C10. When the search finds a path of more than four nodes, \<^verbatim>\<open>convexCover\<close> is called
  once, with exactly the first four nodes as its route, and the optimizer is set up once,
  with the fourth node as final position and zero final velocity and acceleration (and
  one duration per polytope built from that route).
\<close>

theorem plan_truncates_route:
  assumes found: "(if search env True = 0 then search env False else search env True)
                    \<noteq> NO_PATH env"
    and long: "4 < length (getPath env (cfg_a_star_search_time_step cfg))"
  shows "(let step = cfg_a_star_search_time_step cfg;
              path = getPath env step;
              route = take 4 path;
              lower_corner = vadd (- 5, - 5, - 1) pos;
              higher_corner = vadd (5, 5, 3) pos;
              pc = map_getObstaclePoints env @ avoider_getObstaclePoints env (step * 3);
              hPolys = convexCover env route pc lower_corner higher_corner 7 1
          in length route = 4
           \<and> filter is_geometry_call (snd (plan cfg env pos vel acc)) =
               [ConvexCoverCall route lower_corner higher_corner,
                OptimizerSetup (pos, vel, acc) (path ! 3, zero3, zero3)
                  (replicate (length hPolys) step) hPolys])"
proof -
  define path where "path = getPath env (cfg_a_star_search_time_step cfg)"
  have len: "length (take 4 path) = 4"
    using long by (simp add: path_def)
  have ne: "take 4 path \<noteq> []"
    using len by auto
  have sz: "size_minus_one (take 4 path) = 3"
    using len ne by (simp add: size_minus_one_def)
  have last: "take 4 path ! 3 = path ! 3"
    by simp
  show ?thesis
    using found long len ne sz last
    by (simp add: plan_def Let_def is_geometry_call_def path_def [symmetric])
qed

theorem plan_truncates_route_witness:
  "(if search (env_of 6 True True) True = 0 then search (env_of 6 True True) False
    else search (env_of 6 True True) True) \<noteq> NO_PATH (env_of 6 True True)
   \<and> 4 < length (getPath (env_of 6 True True) (cfg_a_star_search_time_step cfg0))
   \<and> filter is_geometry_call (snd (plan cfg0 (env_of 6 True True) (0, 0, 1) zero3 zero3)) =
       [ConvexCoverCall [(0, 0, 1), (1, 0, 1), (2, 0, 1), (3, 0, 1)] (- 5, - 5, 0) (5, 5, 4),
        OptimizerSetup ((0, 0, 1), zero3, zero3) ((3, 0, 1), zero3, zero3)
          [0.4, 0.4, 0.4] [[], [], []]]"
proof -
  have h1: "(if search (env_of 6 True True) True = 0 then search (env_of 6 True True) False
    else search (env_of 6 True True) True) \<noteq> NO_PATH (env_of 6 True True)"
    by (simp add: env_of_def)
  have h2: "4 < length (getPath (env_of 6 True True) (cfg_a_star_search_time_step cfg0))"
    by (simp add: env_of_def length_straight_path)
  have p: "take 4 (straight_path 6) = [(0, 0, 1), (1, 0, 1), (2, 0, 1), (3, 0, 1)]"
    by (simp add: straight_path_def upt_conv_Cons)
  have e: "getPath (env_of 6 True True) = (\<lambda>s. straight_path 6)"
    "map_getObstaclePoints (env_of 6 True True) = []"
    "avoider_getObstaclePoints (env_of 6 True True) = (\<lambda>h. [])"
    "convexCover (env_of 6 True True) = (\<lambda>route pc lc hc bloat shrink. replicate (length route - 1) [])"
    by (simp_all add: env_of_def)
  show ?thesis
    using h1 h2 plan_truncates_route [OF h1 h2, of "(0, 0, 1)" zero3 zero3]
    by (simp add: Let_def e p cfg0_def vadd_def straight_path_nth numeral_3_eq_3)
qed

lemma plan_True_iff:
  "fst (plan cfg env pos vel acc) = Inr True \<Longrightarrow>
   isSafeAfterOpt env \<and> isSafeAfterChk env \<and>
   SafeAfterOptCall \<in> set (snd (plan cfg env pos vel acc)) \<and>
   SafeAfterChkCall \<in> set (snd (plan cfg env pos vel acc))"
  by (simp add: plan_def Let_def split: if_splits)

lemma plan_opt_unsafe:
  "SafeAfterOptCall \<in> set (snd (plan cfg env pos vel acc)) \<Longrightarrow> \<not> isSafeAfterOpt env \<Longrightarrow>
   fst (plan cfg env pos vel acc) = Inr False"
  by (simp add: plan_def Let_def split: if_splits)

lemma plan_chk_unsafe:
  "SafeAfterChkCall \<in> set (snd (plan cfg env pos vel acc)) \<Longrightarrow> \<not> isSafeAfterChk env \<Longrightarrow>
   fst (plan cfg env pos vel acc) = Inr False"
  by (simp add: plan_def Let_def split: if_splits)

lemma FSMCallback_publishes:
  assumes "FSMCallback cfgs tk s = Inr (s', out)" and "out \<noteq> []"
  shows "status s = REPLAN \<and> \<not> isInputLost tk \<and> \<not> isGoalReached tk \<and>
         fst (plan (planner_cfg tk) (planner_env tk) (planner_pos tk) (planner_vel tk)
                (planner_acc tk)) = Inr True \<and>
         out = [PublishTraj (traj_idx s + 1), BroadcastTraj (traj_idx s + 1)]"
  using assms
  by (cases "status s")
     (auto simp: FSMCallback_def Let_def publishTrajectory_def FSMChangeState_def
           split: if_splits sum.splits list.splits)

text \<open>
  C3. \<^verbatim>\<open>plan\<close> returns true only after both deconfliction checks were called and
  passed; a check that is called and fails makes \<^verbatim>\<open>plan\<close> return false. The supervisor
  publishes (on both topics) only in state REPLAN after \<^verbatim>\<open>plan\<close> returned true, hence
  only when both checks passed; when \<^verbatim>\<open>plan\<close> returned false the tick publishes nothing.
\<close>

theorem commit_needs_both_checks:
  "(fst (plan cfg env pos vel acc) = Inr True \<longrightarrow>
      isSafeAfterOpt env \<and> isSafeAfterChk env \<and>
      SafeAfterOptCall \<in> set (snd (plan cfg env pos vel acc)) \<and>
      SafeAfterChkCall \<in> set (snd (plan cfg env pos vel acc)))
   \<and> (SafeAfterOptCall \<in> set (snd (plan cfg env pos vel acc)) \<and> \<not> isSafeAfterOpt env \<longrightarrow>
      fst (plan cfg env pos vel acc) = Inr False)
   \<and> (SafeAfterChkCall \<in> set (snd (plan cfg env pos vel acc)) \<and> \<not> isSafeAfterChk env \<longrightarrow>
      fst (plan cfg env pos vel acc) = Inr False)
   \<and> (FSMCallback cfgs tk s = Inr (s', out) \<and> out \<noteq> [] \<longrightarrow>
      status s = REPLAN \<and>
      fst (plan (planner_cfg tk) (planner_env tk) (planner_pos tk) (planner_vel tk)
             (planner_acc tk)) = Inr True \<and>
      isSafeAfterOpt (planner_env tk) \<and> isSafeAfterChk (planner_env tk) \<and>
      out = [PublishTraj (traj_idx s + 1), BroadcastTraj (traj_idx s + 1)])
   \<and> (FSMCallback cfgs tk s = Inr (s', out) \<and>
      fst (plan (planner_cfg tk) (planner_env tk) (planner_pos tk) (planner_vel tk)
             (planner_acc tk)) = Inr False \<longrightarrow> out = [])"
proof -
  have a: "fst (plan cfg env pos vel acc) = Inr True \<longrightarrow>
      isSafeAfterOpt env \<and> isSafeAfterChk env \<and>
      SafeAfterOptCall \<in> set (snd (plan cfg env pos vel acc)) \<and>
      SafeAfterChkCall \<in> set (snd (plan cfg env pos vel acc))"
    using plan_True_iff [of cfg env pos vel acc] by blast
  have b: "SafeAfterOptCall \<in> set (snd (plan cfg env pos vel acc)) \<and> \<not> isSafeAfterOpt env \<longrightarrow>
      fst (plan cfg env pos vel acc) = Inr False"
    using plan_opt_unsafe [of cfg env pos vel acc] by blast
  have c: "SafeAfterChkCall \<in> set (snd (plan cfg env pos vel acc)) \<and> \<not> isSafeAfterChk env \<longrightarrow>
      fst (plan cfg env pos vel acc) = Inr False"
    using plan_chk_unsafe [of cfg env pos vel acc] by blast
  have d: "FSMCallback cfgs tk s = Inr (s', out) \<and> out \<noteq> [] \<longrightarrow>
      status s = REPLAN \<and>
      fst (plan (planner_cfg tk) (planner_env tk) (planner_pos tk) (planner_vel tk)
             (planner_acc tk)) = Inr True \<and>
      isSafeAfterOpt (planner_env tk) \<and> isSafeAfterChk (planner_env tk) \<and>
      out = [PublishTraj (traj_idx s + 1), BroadcastTraj (traj_idx s + 1)]"
    using FSMCallback_publishes [of cfgs tk s s' out]
      plan_True_iff [of "planner_cfg tk" "planner_env tk" "planner_pos tk" "planner_vel tk"
        "planner_acc tk"]
    by blast
  have e: "FSMCallback cfgs tk s = Inr (s', out) \<and>
      fst (plan (planner_cfg tk) (planner_env tk) (planner_pos tk) (planner_vel tk)
             (planner_acc tk)) = Inr False \<longrightarrow> out = []"
    using FSMCallback_publishes [of cfgs tk s s' out] by (cases "out = []") simp_all
  from a b c d e show ?thesis by blast
qed

lemma plan_samples:
  "plan cfg0 (env_of 6 True True) (0, 0, 1) zero3 zero3 =
     (Inr True,
      [AstarSearch True,
       ConvexCoverCall (take 4 (straight_path 6)) (- 5, - 5, 0) (5, 5, 4),
       OptimizerSetup ((0, 0, 1), zero3, zero3) ((3, 0, 1), zero3, zero3)
         [0.4, 0.4, 0.4] [[], [], []],
       SafeAfterOptCall, SafeAfterChkCall])"
  "plan cfg0 (env_of 6 False True) (0, 0, 1) zero3 zero3 =
     (Inr False,
      [AstarSearch True,
       ConvexCoverCall (take 4 (straight_path 6)) (- 5, - 5, 0) (5, 5, 4),
       OptimizerSetup ((0, 0, 1), zero3, zero3) ((3, 0, 1), zero3, zero3)
         [0.4, 0.4, 0.4] [[], [], []],
       SafeAfterOptCall])"
  "plan cfg0 (env_of 6 True False) (0, 0, 1) zero3 zero3 =
     (Inr False,
      [AstarSearch True,
       ConvexCoverCall (take 4 (straight_path 6)) (- 5, - 5, 0) (5, 5, 4),
       OptimizerSetup ((0, 0, 1), zero3, zero3) ((3, 0, 1), zero3, zero3)
         [0.4, 0.4, 0.4] [[], [], []],
       SafeAfterOptCall, SafeAfterChkCall])"
  by (simp_all add: plan_def env_of_def cfg0_def Let_def length_straight_path
      straight_path_Nil straight_path_nth vadd_def numeral_3_eq_3)

lemma FSMCallback_samples:
  "FSMCallback cfgs0 (tick_of (env_of 6 True True)) (fsm_in REPLAN) =
     Inr ((fsm_in EXEC_TRAJ)\<lparr>traj_idx := 1, prev_plan_time := 10, traj_start_time := 10\<rparr>,
          [PublishTraj 1, BroadcastTraj 1])"
  "FSMCallback cfgs0 (tick_of (env_of 6 True False)) (fsm_in REPLAN) = Inr (fsm_in REPLAN, [])"
  by (simp_all add: FSMCallback_def tick_of_def plan_samples publishTrajectory_def
      FSMChangeState_def Let_def fsm_in_def)

theorem commit_needs_both_checks_witness:
  "fst (plan cfg0 (env_of 6 True True) (0, 0, 1) zero3 zero3) = Inr True
   \<and> isSafeAfterOpt (env_of 6 True True) \<and> isSafeAfterChk (env_of 6 True True)
   \<and> SafeAfterOptCall \<in> set (snd (plan cfg0 (env_of 6 False True) (0, 0, 1) zero3 zero3))
   \<and> \<not> isSafeAfterOpt (env_of 6 False True)
   \<and> fst (plan cfg0 (env_of 6 False True) (0, 0, 1) zero3 zero3) = Inr False
   \<and> SafeAfterChkCall \<in> set (snd (plan cfg0 (env_of 6 True False) (0, 0, 1) zero3 zero3))
   \<and> \<not> isSafeAfterChk (env_of 6 True False)
   \<and> fst (plan cfg0 (env_of 6 True False) (0, 0, 1) zero3 zero3) = Inr False
   \<and> FSMCallback cfgs0 (tick_of (env_of 6 True True)) (fsm_in REPLAN) =
       Inr ((fsm_in EXEC_TRAJ)\<lparr>traj_idx := 1, prev_plan_time := 10, traj_start_time := 10\<rparr>,
            [PublishTraj 1, BroadcastTraj 1])
   \<and> [PublishTraj 1, BroadcastTraj 1] \<noteq> []
   \<and> status (fsm_in REPLAN) = REPLAN
   \<and> isSafeAfterOpt (planner_env (tick_of (env_of 6 True True)))
   \<and> isSafeAfterChk (planner_env (tick_of (env_of 6 True True)))
   \<and> FSMCallback cfgs0 (tick_of (env_of 6 True False)) (fsm_in REPLAN) = Inr (fsm_in REPLAN, [])"
proof -
  have t: "planner_cfg (tick_of env) = cfg0" "planner_env (tick_of env) = env"
    "planner_pos (tick_of env) = (0, 0, 1)" "planner_vel (tick_of env) = zero3"
    "planner_acc (tick_of env) = zero3" for env
    by (simp_all add: tick_of_def)
  have s: "isSafeAfterOpt (env_of n a b) = a" "isSafeAfterChk (env_of n a b) = b" for n a b
    by (simp_all add: env_of_def)
  note T1 = commit_needs_both_checks
    [where cfg = cfg0 and env = "env_of 6 True True" and pos = "(0, 0, 1)" and vel = zero3
       and acc = zero3 and cfgs = cfgs0 and tk = "tick_of (env_of 6 True True)"
       and s = "fsm_in REPLAN"
       and s' = "(fsm_in EXEC_TRAJ)\<lparr>traj_idx := 1, prev_plan_time := 10, traj_start_time := 10\<rparr>"
       and out = "[PublishTraj 1, BroadcastTraj 1]"]
  note T2 = commit_needs_both_checks
    [where cfg = cfg0 and env = "env_of 6 False True" and pos = "(0, 0, 1)" and vel = zero3
       and acc = zero3]
  note T3 = commit_needs_both_checks
    [where cfg = cfg0 and env = "env_of 6 True False" and pos = "(0, 0, 1)" and vel = zero3
       and acc = zero3 and cfgs = cfgs0 and tk = "tick_of (env_of 6 True False)"
       and s = "fsm_in REPLAN" and s' = "fsm_in REPLAN" and out = "[]"]
  have st: "status (fsm_in REPLAN) = REPLAN"
    by (simp add: fsm_in_def)
  show ?thesis
    using T1 T2 T3
    by (simp add: plan_samples FSMCallback_samples t s st)
qed

text \<open>
  A tick in EXEC\_TRAJ. \<^verbatim>\<open>isTrajectorySafe\<close> always answers true and its answer is
  not read: the tick publishes nothing and moves to WAIT\_TARGET when the input is lost,
  else to GOAL\_REACHED when the goal is reached, else to REPLAN when the replan duration
  has elapsed, else stays in EXEC\_TRAJ. No tick in EXEC\_TRAJ has the check answer
  false, and none moves to EMERGENCY\_REPLAN.
\<close>

lemma FSMCallback_in_EXEC_TRAJ:
  assumes "status s = EXEC_TRAJ"
  shows "isTrajectorySafe
       \<and> FSMCallback cfgs tk s =
           Inr (s\<lparr>status :=
                    (if isInputLost tk then WAIT_TARGET
                     else if isGoalReached tk then GOAL_REACHED
                     else if checkTimeLapse tk (replan_duration cfgs) then REPLAN
                     else EXEC_TRAJ)\<rparr>, [])
       \<and> (\<forall>s' out. FSMCallback cfgs tk s = Inr (s', out) \<longrightarrow> status s' \<noteq> EMERGENCY_REPLAN)"
  using assms
  by (auto simp: FSMCallback_def exec_traj_body_def FSMChangeState_def isTrajectorySafe_def
      Let_def)

end
